theory Spec2Isabelle
  imports Complex_Main
begin

section \<open>The icon script create\_icon.py\<close>

text \<open>
  The script draws a hub-and-spoke icon with the Pillow image library, saves it as a PNG
  with six resized copies, and converts the PNG to an icon bundle with the external
  command \<^verbatim>\<open>sips\<close>.

  Modelling decisions:
  \<^item> Python integers are \<open>int\<close>. The floats produced by \<^verbatim>\<open>math.cos\<close>,
    \<^verbatim>\<open>math.sin\<close> and \<^verbatim>\<open>math.radians\<close> are idealised as \<open>real\<close>: the model
    computes the exact value that the float approximates.
  \<^item> An image is the record of how it was made: the canvas with the drawing calls in the
    order they were issued, or a resized copy of another image. Pixels are not modelled.
  \<^item> Printed text is a list of bytes (UTF-8), so the symbols that open the messages are
    written byte by byte. Standard output has an encoding, which the interpreter fixes at
    start-up from the environment (\<^verbatim>\<open>PYTHONIOENCODING\<close>, the locale) and which the
    world records. \<^verbatim>\<open>print\<close> raises \<open>UnicodeEncodeError\<close> when the encoding has no
    code for a character of the message, as ASCII has none for those symbols. Every
    function of the script takes the encoding as a parameter (\<open>create_icon_on\<close>,
    \<open>create_icns_on\<close>, \<open>main_on\<close>); \<open>create_icon\<close>, \<open>create_icns\<close> and \<open>main\<close> are these
    functions with UTF-8 output, and \<open>run_script\<close> is the entry point with the encoding of
    the world.
  \<^item> The file system is a set of directories and a map from paths to file contents.
    Saving a file fails with \<open>FileNotFoundError\<close> when the directory of the path is
    missing; the other ways a write can fail (permissions, a full disk, a directory in
    the place of a file) are outside the model.
  \<^item> The external command is not installed (\<open>FileNotFoundError\<close>), is installed but
    may not be executed (\<open>PermissionError\<close>, which \<^verbatim>\<open>create_icns\<close> does not catch), or
    runs and exits with a return code. A tool that fails leaves the files as they are.
  \<^item> Every effect is appended to a trace of events, together with the entry into each
    of the two functions, so that statements about what was or was not done can be made.
\<close>

subsection \<open>Images\<close>

type_synonym rgba = "int \<times> int \<times> int \<times> int"

type_synonym point = "real \<times> real"

datatype draw_op =
    Ellipse real real real real rgba
  | Line point point rgba int

datatype resampling = NEAREST | BOX | BILINEAR | HAMMING | BICUBIC | LANCZOS

datatype image =
    Canvas string "int \<times> int" rgba "draw_op list"
  | Resize image "int \<times> int" resampling

fun image_size :: "image \<Rightarrow> int \<times> int" where
  "image_size (Canvas m sz bg ops) = sz"
| "image_size (Resize img sz f) = sz"

fun image_mode :: "image \<Rightarrow> string" where
  "image_mode (Canvas m sz bg ops) = m"
| "image_mode (Resize img sz f) = image_mode img"

subsection \<open>Python library functions\<close>

definition radians :: "real \<Rightarrow> real" where
  "radians d = d * pi / 180"

definition range_py :: "nat \<Rightarrow> int list" where
  "range_py n = map int [0..<n]"

fun str_nat :: "nat \<Rightarrow> string" where
  "str_nat n =
     (if n < 10 then [''0123456789'' ! n]
      else str_nat (n div 10) @ [''0123456789'' ! (n mod 10)])"

declare str_nat.simps [simp del]

definition str :: "int \<Rightarrow> string" where
  "str i = (if i < 0 then ''-'' @ str_nat (nat (- i)) else str_nat (nat i))"

definition dirname :: "string \<Rightarrow> string" where
  "dirname p = rev (drop 1 (dropWhile (\<lambda>c. c \<noteq> CHR ''/'') (rev p)))"

subsection \<open>The world and the state\<close>

datatype tool = Tool_missing | Tool_not_executable | Tool_exits int

datatype encoding = UTF8 | ASCII

record world =
  argv :: "string list"
  environ :: "string \<rightharpoonup> string"
  stdout_encoding :: encoding
  PIL_AVAILABLE :: bool
  sips :: tool

datatype content = Png image | Icns content | Raw string

datatype event =
    Enter string
  | Print string
  | Makedirs string
  | Save string image
  | Path_exists string
  | Run "string list"

record state =
  dirs :: "string set"
  files :: "string \<rightharpoonup> content"
  events :: "event list"

datatype exn =
    FileNotFoundError
  | PermissionError
  | CalledProcessError int
  | UnicodeEncodeError
  | SystemExit int

definition log :: "event \<Rightarrow> state \<Rightarrow> state" where
  "log e s = s\<lparr>events := events s @ [e]\<rparr>"

definition encodable :: "encoding \<Rightarrow> string \<Rightarrow> bool" where
  \<comment> \<open>the text is held as UTF-8 bytes; ASCII has the characters below 128 only\<close>
  "encodable enc msg =
     (case enc of
        UTF8 \<Rightarrow> True
      | ASCII \<Rightarrow> list_all (\<lambda>c. of_char c < (128::nat)) msg)"

definition print_py :: "encoding \<Rightarrow> string \<Rightarrow> state \<Rightarrow> exn + state" where
  \<comment> \<open>\<^verbatim>\<open>print(msg)\<close> on a standard output with encoding \<open>enc\<close>\<close>
  "print_py enc msg s =
     (if encodable enc msg then Inr (log (Print msg) s) else Inl UnicodeEncodeError)"

definition makedirs :: "string \<Rightarrow> state \<Rightarrow> state" where
  \<comment> \<open>\<^verbatim>\<open>os.makedirs(p, exist_ok=True)\<close> for a path of one component\<close>
  "makedirs p s = log (Makedirs p) (s\<lparr>dirs := insert p (dirs s)\<rparr>)"

definition exists :: "state \<Rightarrow> string \<Rightarrow> bool" where
  \<comment> \<open>\<^verbatim>\<open>os.path.exists\<close>: true of files and of directories\<close>
  "exists s p = (files s p \<noteq> None \<or> p \<in> dirs s)"

definition save :: "image \<Rightarrow> string \<Rightarrow> state \<Rightarrow> exn + state" where
  "save img p s =
     (if dirname p \<in> dirs s
      then Inr (log (Save p img) (s\<lparr>files := (files s)(p \<mapsto> Png img)\<rparr>))
      else Inl FileNotFoundError)"

subsection \<open>Message texts\<close>

definition check_mark :: string where
  "check_mark = [CHR 0xE2, CHR 0x9C, CHR 0x85]"

definition cross_mark :: string where
  "cross_mark = [CHR 0xE2, CHR 0x9D, CHR 0x8C]"

definition warning_sign :: string where
  "warning_sign = [CHR 0xE2, CHR 0x9A, CHR 0xA0, CHR 0xEF, CHR 0xB8, CHR 0x8F]"

definition palette :: string where
  "palette = [CHR 0xF0, CHR 0x9F, CHR 0x8E, CHR 0xA8]"

definition party_popper :: string where
  "party_popper = [CHR 0xF0, CHR 0x9F, CHR 0x8E, CHR 0x89]"

definition msg_no_pil :: string where
  "msg_no_pil = ''PIL (Pillow) not available. Install with: pip3 install Pillow''"

definition msg_created_png :: string where
  "msg_created_png = check_mark @ '' Created Resources/AppIcon.png''"

definition msg_created_sizes :: string where
  "msg_created_sizes = check_mark @ '' Created multiple icon sizes''"

definition msg_png_not_found :: string where
  "msg_png_not_found = cross_mark @ '' AppIcon.png not found''"

definition msg_created_icns :: string where
  "msg_created_icns = check_mark @ '' Created Resources/AppIcon.icns''"

definition msg_sips_failed :: string where
  "msg_sips_failed = warning_sign @ ''  Could not create ICNS file (sips not available)''"

definition msg_sips_missing :: string where
  "msg_sips_missing = warning_sign @ ''  Could not create ICNS file (sips not found)''"

definition msg_start :: string where
  "msg_start = palette @ '' Creating PortList app icon...''"

definition msg_complete :: string where
  "msg_complete = party_popper @ '' Icon creation complete!''"

definition msg_failed :: string where
  "msg_failed = cross_mark @ '' Icon creation failed''"

subsection \<open>create\_icon: the drawing\<close>

definition size_px :: int where
  "size_px = 512"

definition primary_color :: rgba where
  "primary_color = (70, 130, 255, 255)"

definition secondary_color :: rgba where
  "secondary_color = (255, 255, 255, 255)"

definition accent_color :: rgba where
  "accent_color = (255, 140, 0, 255)"

definition margin :: int where
  "margin = 50"

definition center :: int where
  "center = size_px div 2"

definition hub_radius :: int where
  "hub_radius = 30"

definition node_radius :: int where
  "node_radius = 20"

definition connection_radius :: int where
  "connection_radius = 150"

definition node_xy :: "int \<Rightarrow> point" where
  \<comment> \<open>lines 57 to 59 (and 71 to 77): the point at \<open>angle\<close> degrees on the circle\<close>
  "node_xy angle =
     (real_of_int center + real_of_int connection_radius * cos (radians (real_of_int angle)),
      real_of_int center + real_of_int connection_radius * sin (radians (real_of_int angle)))"

definition node_color :: "int \<Rightarrow> rgba" where
  "node_color i = (if i mod 2 = 0 then accent_color else secondary_color)"

definition draw_node :: "int \<Rightarrow> draw_op list \<Rightarrow> draw_op list" where
  \<comment> \<open>the body of the first loop\<close>
  "draw_node i ops =
     (let angle = i * 60;
          (x, y) = node_xy angle;
          ops1 = ops @ [Line (real_of_int center, real_of_int center) (x, y) secondary_color 6]
      in ops1 @ [Ellipse (x - real_of_int node_radius) (y - real_of_int node_radius)
                         (x + real_of_int node_radius) (y + real_of_int node_radius)
                         (node_color i)])"

definition draw_link :: "int \<Rightarrow> draw_op list \<Rightarrow> draw_op list" where
  \<comment> \<open>the body of the second loop\<close>
  "draw_link i ops =
     (let angle1 = i * 60;
          angle2 = ((i + 1) mod 6) * 60
      in ops @ [Line (node_xy angle1) (node_xy angle2) (255, 255, 255, 128) 2])"

definition draw_ops :: "draw_op list" where
  "draw_ops =
     (let ops0 = [Ellipse (real_of_int margin) (real_of_int margin)
                          (real_of_int (size_px - margin)) (real_of_int (size_px - margin))
                          primary_color];
          ops1 = ops0 @ [Ellipse (real_of_int (center - hub_radius)) (real_of_int (center - hub_radius))
                                 (real_of_int (center + hub_radius)) (real_of_int (center + hub_radius))
                                 secondary_color];
          ops2 = fold draw_node (range_py 6) ops1
      in fold draw_link (range_py 6) ops2)"

definition icon_image :: image where
  \<comment> \<open>\<open>img\<close> when line 82 is reached\<close>
  "icon_image = Canvas ''RGBA'' (size_px, size_px) (0, 0, 0, 0) draw_ops"

subsection \<open>create\_icon: saving\<close>

definition sizes :: "int list" where
  "sizes = [16, 32, 64, 128, 256, 512]"

definition size_path :: "int \<Rightarrow> string" where
  "size_path s = ''Resources/AppIcon_'' @ str s @ ''x'' @ str s @ ''.png''"

fun save_sizes :: "image \<Rightarrow> int list \<Rightarrow> state \<Rightarrow> exn option \<times> state" where
  "save_sizes img [] st = (None, st)"
| "save_sizes img (s # rest) st =
     (let resized = Resize img (s, s) LANCZOS
      in case save resized (size_path s) st of
           Inl e \<Rightarrow> (Some e, st)
         | Inr st' \<Rightarrow> save_sizes img rest st')"

definition create_icon_on :: "encoding \<Rightarrow> world \<Rightarrow> state \<Rightarrow> (exn + bool) \<times> state" where
  "create_icon_on enc w s0 =
     (let s = log (Enter ''create_icon'') s0
      in if \<not> PIL_AVAILABLE w then
           (case print_py enc msg_no_pil s of
              Inl e \<Rightarrow> (Inl e, s)
            | Inr s1 \<Rightarrow> (Inr False, s1))
         else
           let img = icon_image
           in case save img ''Resources/AppIcon.png'' s of
                Inl e \<Rightarrow> (Inl e, s)
              | Inr s1 \<Rightarrow>
                  (case print_py enc msg_created_png s1 of
                     Inl e \<Rightarrow> (Inl e, s1)
                   | Inr s2 \<Rightarrow>
                       (case save_sizes img sizes s2 of
                          (Some e, s3) \<Rightarrow> (Inl e, s3)
                        | (None, s3) \<Rightarrow>
                            (case print_py enc msg_created_sizes s3 of
                               Inl e \<Rightarrow> (Inl e, s3)
                             | Inr s4 \<Rightarrow> (Inr True, s4)))))"

definition create_icon :: "world \<Rightarrow> state \<Rightarrow> (exn + bool) \<times> state" where
  \<comment> \<open>the renderer with UTF-8 output\<close>
  "create_icon w s = create_icon_on UTF8 w s"

subsection \<open>create\_icns\<close>

definition sips_args :: "string list" where
  "sips_args = [''sips'', ''-s'', ''format'', ''icns'',
                ''Resources/AppIcon.png'', ''--out'', ''Resources/AppIcon.icns'']"

definition sips_convert :: "string \<Rightarrow> string \<Rightarrow> state \<Rightarrow> state" where
  \<comment> \<open>what a successful run of the tool leaves behind\<close>
  "sips_convert src dst s =
     (case files s src of
        None \<Rightarrow> s
      | Some f \<Rightarrow> s\<lparr>files := (files s)(dst \<mapsto> Icns f)\<rparr>)"

definition subprocess_run :: "world \<Rightarrow> string list \<Rightarrow> state \<Rightarrow> (exn + int) \<times> state" where
  \<comment> \<open>\<^verbatim>\<open>subprocess.run(args, check=True, capture_output=True)\<close> for the sips command\<close>
  "subprocess_run w args s =
     (let s1 = log (Run args) s
      in case sips w of
           Tool_missing \<Rightarrow> (Inl FileNotFoundError, s1)
         | Tool_not_executable \<Rightarrow> (Inl PermissionError, s1)
         | Tool_exits rc \<Rightarrow>
             if rc \<noteq> 0 then (Inl (CalledProcessError rc), s1)
             else (Inr rc, sips_convert (args ! 4) (args ! 6) s1))"

definition print_return :: "encoding \<Rightarrow> string \<Rightarrow> bool \<Rightarrow> state \<Rightarrow> (exn + bool) \<times> state" where
  \<comment> \<open>\<^verbatim>\<open>print(msg); return b\<close>\<close>
  "print_return enc msg b s =
     (case print_py enc msg s of
        Inl e \<Rightarrow> (Inl e, s)
      | Inr s' \<Rightarrow> (Inr b, s'))"

definition create_icns_on :: "encoding \<Rightarrow> world \<Rightarrow> state \<Rightarrow> (exn + bool) \<times> state" where
  "create_icns_on enc w s0 =
     (let s = log (Path_exists ''Resources/AppIcon.png'') (log (Enter ''create_icns'') s0)
      in if \<not> exists s ''Resources/AppIcon.png''
         then print_return enc msg_png_not_found False s
         else
           case subprocess_run w sips_args s of
             (Inr rc, s1) \<Rightarrow> print_return enc msg_created_icns True s1
           | (Inl (CalledProcessError rc), s1) \<Rightarrow> print_return enc msg_sips_failed False s1
           | (Inl FileNotFoundError, s1) \<Rightarrow> print_return enc msg_sips_missing False s1
           | (Inl e, s1) \<Rightarrow> (Inl e, s1))"

definition create_icns :: "world \<Rightarrow> state \<Rightarrow> (exn + bool) \<times> state" where
  \<comment> \<open>the converter with UTF-8 output\<close>
  "create_icns w s = create_icns_on UTF8 w s"

subsection \<open>The entry point\<close>

definition exit_status :: "exn \<Rightarrow> int" where
  \<comment> \<open>the status of a process that an exception ends\<close>
  "exit_status e = (case e of SystemExit n \<Rightarrow> n | _ \<Rightarrow> 1)"

definition main_on :: "encoding \<Rightarrow> world \<Rightarrow> state \<Rightarrow> int \<times> state" where
  "main_on enc w s0 =
     (case print_py enc msg_start s0 of
        Inl e \<Rightarrow> (exit_status e, s0)
      | Inr s1 \<Rightarrow>
          let s2 = makedirs ''Resources'' s1
          in case create_icon_on enc w s2 of
               (Inl e, s3) \<Rightarrow> (exit_status e, s3)
             | (Inr ok, s3) \<Rightarrow>
                 if ok then
                   (case create_icns_on enc w s3 of
                      (Inl e, s4) \<Rightarrow> (exit_status e, s4)
                    | (Inr r, s4) \<Rightarrow>
                        (case print_py enc msg_complete s4 of
                           Inl e \<Rightarrow> (exit_status e, s4)
                         | Inr s5 \<Rightarrow> (0, s5)))
                 else
                   (case print_py enc msg_failed s3 of
                      Inl e \<Rightarrow> (exit_status e, s3)
                    | Inr s4 \<Rightarrow> (exit_status (SystemExit 1), s4)))"

definition main :: "world \<Rightarrow> state \<Rightarrow> int \<times> state" where
  \<comment> \<open>the entry point with UTF-8 output\<close>
  "main w s = main_on UTF8 w s"


subsection \<open>Observations on a run\<close>

fun printed :: "event list \<Rightarrow> string list" where
  "printed [] = []"
| "printed (Print m # es) = m # printed es"
| "printed (e # es) = printed es"

fun saved :: "event list \<Rightarrow> (string \<times> image) list" where
  "saved [] = []"
| "saved (Save p img # es) = (p, img) # saved es"
| "saved (e # es) = saved es"

fun commands :: "event list \<Rightarrow> string list list" where
  "commands [] = []"
| "commands (Run args # es) = args # commands es"
| "commands (e # es) = commands es"

definition trace :: "world \<Rightarrow> state \<Rightarrow> event list" where
  \<comment> \<open>the events of one run of the program\<close>
  "trace w s = drop (length (events s)) (events (snd (main w s)))"


definition before_renderer :: "state \<Rightarrow> state" where
  \<comment> \<open>the state in which \<open>main\<close> calls \<open>create_icon\<close>\<close>
  "before_renderer s = makedirs ''Resources'' (log (Print msg_start) s)"

definition renderer_result :: "world \<Rightarrow> state \<Rightarrow> exn + bool" where
  \<comment> \<open>what \<open>create_icon\<close> returns where \<open>main\<close> calls it\<close>
  "renderer_result w s = fst (create_icon w (before_renderer s))"




fun ellipses :: "draw_op list \<Rightarrow> ((real \<times> real \<times> real \<times> real) \<times> rgba) list" where
  "ellipses [] = []"
| "ellipses (Ellipse x0 y0 x1 y1 c # ops) = ((x0, y0, x1, y1), c) # ellipses ops"
| "ellipses (Line p q c wd # ops) = ellipses ops"

definition ellipse_center :: "real \<times> real \<times> real \<times> real \<Rightarrow> point" where
  "ellipse_center b = (case b of (x0, y0, x1, y1) \<Rightarrow> ((x0 + x1) / 2, (y0 + y1) / 2))"

definition node_ellipses :: "((real \<times> real \<times> real \<times> real) \<times> rgba) list" where
  \<comment> \<open>the ellipses of the icon that come after the background and the hub\<close>
  "node_ellipses = drop 2 (ellipses draw_ops)"

definition node_centers :: "point list" where
  "node_centers = map (ellipse_center \<circ> fst) node_ellipses"

definition node_fills :: "rgba list" where
  "node_fills = map snd node_ellipses"

definition distance :: "point \<Rightarrow> point \<Rightarrow> real" where
  \<comment> \<open>the Euclidean distance in the plane\<close>
  "distance p q = sqrt ((fst p - fst q)\<^sup>2 + (snd p - snd q)\<^sup>2)"

subsection \<open>Sample inputs\<close>

definition empty_state :: state where
  "empty_state = \<lparr>dirs = {}, files = Map.empty, events = []\<rparr>"

definition plain_world :: "bool \<Rightarrow> tool \<Rightarrow> world" where
  "plain_world pil t =
     \<lparr>argv = [''create_icon.py''], environ = Map.empty, stdout_encoding = UTF8,
      PIL_AVAILABLE = pil, sips = t\<rparr>"


section \<open>Evaluating the library functions and the drawing\<close>

lemma range_py_6: "range_py 6 = [0, 1, 2, 3, 4, 5]"
  by (simp add: range_py_def upt_rec)

lemma radians_vals:
  "radians 0 = 0"
  "radians 60 = pi / 3"
  "radians 120 = pi - pi / 3"
  "radians 180 = pi"
  "radians 240 = pi / 3 + pi"
  "radians 300 = 2 * pi - pi / 3"
  by (simp_all add: radians_def)

lemma cos_vals:
  "cos (radians 0) = 1"
  "cos (radians 60) = 1 / 2"
  "cos (radians 120) = - (1 / 2)"
  "cos (radians 180) = - 1"
  "cos (radians 240) = - (1 / 2)"
  "cos (radians 300) = 1 / 2"
proof -
  show "cos (radians 0) = 1" by (simp add: radians_def)
  show "cos (radians 60) = 1 / 2" by (simp only: radians_vals cos_60)
  show "cos (radians 120) = - (1 / 2)" by (simp only: radians_vals cos_pi_minus cos_60)
  show "cos (radians 180) = - 1" by (simp only: radians_vals cos_pi)
  show "cos (radians 240) = - (1 / 2)" by (simp only: radians_vals cos_periodic_pi cos_60)
  show "cos (radians 300) = 1 / 2" by (simp only: radians_vals cos_2pi_minus cos_60)
qed

lemma sin_vals:
  "sin (radians 0) = 0"
  "sin (radians 60) = sqrt 3 / 2"
  "sin (radians 120) = sqrt 3 / 2"
  "sin (radians 180) = 0"
  "sin (radians 240) = - (sqrt 3 / 2)"
  "sin (radians 300) = - (sqrt 3 / 2)"
proof -
  show "sin (radians 0) = 0" by (simp add: radians_def)
  show "sin (radians 60) = sqrt 3 / 2" by (simp only: radians_vals sin_60)
  show "sin (radians 120) = sqrt 3 / 2" by (simp only: radians_vals sin_pi_minus sin_60)
  show "sin (radians 180) = 0" by (simp only: radians_vals sin_pi)
  show "sin (radians 240) = - (sqrt 3 / 2)" by (simp only: radians_vals sin_periodic_pi sin_60)
  show "sin (radians 300) = - (sqrt 3 / 2)" by (simp only: radians_vals sin_2pi_minus sin_60)
qed

lemma node_xy_vals:
  "node_xy 0 = (406, 256)"
  "node_xy 60 = (331, 256 + 75 * sqrt 3)"
  "node_xy 120 = (181, 256 + 75 * sqrt 3)"
  "node_xy 180 = (106, 256)"
  "node_xy 240 = (181, 256 - 75 * sqrt 3)"
  "node_xy 300 = (331, 256 - 75 * sqrt 3)"
  by (simp_all add: node_xy_def center_def size_px_def connection_radius_def cos_vals sin_vals)


lemma node_ellipses_vals:
  "node_ellipses =
     [((386, 236, 426, 276), accent_color),
      ((311, 236 + 75 * sqrt 3, 351, 276 + 75 * sqrt 3), secondary_color),
      ((161, 236 + 75 * sqrt 3, 201, 276 + 75 * sqrt 3), accent_color),
      ((86, 236, 126, 276), secondary_color),
      ((161, 236 - 75 * sqrt 3, 201, 276 - 75 * sqrt 3), accent_color),
      ((311, 236 - 75 * sqrt 3, 351, 276 - 75 * sqrt 3), secondary_color)]"
  by (simp add: node_ellipses_def draw_ops_def range_py_6 draw_node_def draw_link_def
      node_xy_vals node_color_def node_radius_def)

lemma node_centers_vals:
  "node_centers =
     [(406, 256), (331, 256 + 75 * sqrt 3), (181, 256 + 75 * sqrt 3),
      (106, 256), (181, 256 - 75 * sqrt 3), (331, 256 - 75 * sqrt 3)]"
  by (simp add: node_centers_def node_ellipses_vals ellipse_center_def)

lemma sq_75_sqrt3: "(75 * sqrt 3)\<^sup>2 = 16875"
  by (simp add: power_mult_distrib)

lemma sqrt_22500: "sqrt 22500 = 150"
  by (rule real_sqrt_unique) simp_all

lemma dist_vals:
  "distance (406, 256) (256, 256) = 150"
  "distance (331, 256 + 75 * sqrt 3) (256, 256) = 150"
  "distance (181, 256 + 75 * sqrt 3) (256, 256) = 150"
  "distance (106, 256) (256, 256) = 150"
  "distance (181, 256 - 75 * sqrt 3) (256, 256) = 150"
  "distance (331, 256 - 75 * sqrt 3) (256, 256) = 150"
  by (simp_all add: distance_def sq_75_sqrt3 sqrt_22500)


lemma less_6_cases: "i < 6 \<Longrightarrow> i = 0 \<or> i = 1 \<or> i = 2 \<or> i = 3 \<or> i = 4 \<or> i = (5::nat)"
  by arith

lemma node_fills_vals:
  "node_fills =
     [accent_color, secondary_color, accent_color, secondary_color, accent_color, secondary_color]"
  by (simp add: node_fills_def node_ellipses_vals)

lemma size_path_vals:
  "size_path 16 = ''Resources/AppIcon_16x16.png''"
  "size_path 32 = ''Resources/AppIcon_32x32.png''"
  "size_path 64 = ''Resources/AppIcon_64x64.png''"
  "size_path 128 = ''Resources/AppIcon_128x128.png''"
  "size_path 256 = ''Resources/AppIcon_256x256.png''"
  "size_path 512 = ''Resources/AppIcon_512x512.png''"
  by (simp_all add: size_path_def str_def str_nat.simps)

lemma dirname_vals:
  "dirname ''Resources/AppIcon.png'' = ''Resources''"
  "dirname ''Resources/AppIcon_16x16.png'' = ''Resources''"
  "dirname ''Resources/AppIcon_32x32.png'' = ''Resources''"
  "dirname ''Resources/AppIcon_64x64.png'' = ''Resources''"
  "dirname ''Resources/AppIcon_128x128.png'' = ''Resources''"
  "dirname ''Resources/AppIcon_256x256.png'' = ''Resources''"
  "dirname ''Resources/AppIcon_512x512.png'' = ''Resources''"
  by (simp_all add: dirname_def)

section \<open>The two functions and the entry point, case by case\<close>

lemma print_utf8: "print_py UTF8 msg s = Inr (s\<lparr>events := events s @ [Print msg]\<rparr>)"
  by (simp add: print_py_def encodable_def log_def)


lemma save_ok:
  "dirname p \<in> dirs s \<Longrightarrow>
   save img p s = Inr (s\<lparr>files := (files s)(p \<mapsto> Png img), events := events s @ [Save p img]\<rparr>)"
  by (simp add: save_def log_def)

lemma create_icon_ok:
  assumes "PIL_AVAILABLE w" and "''Resources'' \<in> dirs s"
  shows "create_icon w s =
    (Inr True,
     s\<lparr>files := (files s)
          (''Resources/AppIcon.png'' \<mapsto> Png icon_image,
           ''Resources/AppIcon_16x16.png'' \<mapsto> Png (Resize icon_image (16, 16) LANCZOS),
           ''Resources/AppIcon_32x32.png'' \<mapsto> Png (Resize icon_image (32, 32) LANCZOS),
           ''Resources/AppIcon_64x64.png'' \<mapsto> Png (Resize icon_image (64, 64) LANCZOS),
           ''Resources/AppIcon_128x128.png'' \<mapsto> Png (Resize icon_image (128, 128) LANCZOS),
           ''Resources/AppIcon_256x256.png'' \<mapsto> Png (Resize icon_image (256, 256) LANCZOS),
           ''Resources/AppIcon_512x512.png'' \<mapsto> Png (Resize icon_image (512, 512) LANCZOS)),
        events := events s @
          [Enter ''create_icon'',
           Save ''Resources/AppIcon.png'' icon_image,
           Print msg_created_png,
           Save ''Resources/AppIcon_16x16.png'' (Resize icon_image (16, 16) LANCZOS),
           Save ''Resources/AppIcon_32x32.png'' (Resize icon_image (32, 32) LANCZOS),
           Save ''Resources/AppIcon_64x64.png'' (Resize icon_image (64, 64) LANCZOS),
           Save ''Resources/AppIcon_128x128.png'' (Resize icon_image (128, 128) LANCZOS),
           Save ''Resources/AppIcon_256x256.png'' (Resize icon_image (256, 256) LANCZOS),
           Save ''Resources/AppIcon_512x512.png'' (Resize icon_image (512, 512) LANCZOS),
           Print msg_created_sizes]\<rparr>)"
  using assms
  by (simp add: create_icon_def create_icon_on_def sizes_def size_path_vals dirname_vals save_ok
      log_def print_utf8 Let_def)


lemma create_icon_no_pil:
  "\<not> PIL_AVAILABLE w \<Longrightarrow>
   create_icon w s = (Inr False, s\<lparr>events := events s @ [Enter ''create_icon'', Print msg_no_pil]\<rparr>)"
  by (simp add: create_icon_def create_icon_on_def log_def print_utf8)

lemma create_icns_not_found:
  "\<not> exists s ''Resources/AppIcon.png'' \<Longrightarrow>
   create_icns w s =
     (Inr False,
      s\<lparr>events := events s @
         [Enter ''create_icns'', Path_exists ''Resources/AppIcon.png'', Print msg_png_not_found]\<rparr>)"
  by (simp add: create_icns_def create_icns_on_def print_return_def log_def print_utf8 exists_def Let_def)

lemma create_icns_missing:
  "exists s ''Resources/AppIcon.png'' \<Longrightarrow> sips w = Tool_missing \<Longrightarrow>
   create_icns w s =
     (Inr False,
      s\<lparr>events := events s @
         [Enter ''create_icns'', Path_exists ''Resources/AppIcon.png'', Run sips_args,
          Print msg_sips_missing]\<rparr>)"
  by (auto simp add: create_icns_def create_icns_on_def print_return_def subprocess_run_def log_def print_utf8
      exists_def Let_def)

lemma create_icns_failed:
  "exists s ''Resources/AppIcon.png'' \<Longrightarrow> sips w = Tool_exits rc \<Longrightarrow> rc \<noteq> 0 \<Longrightarrow>
   create_icns w s =
     (Inr False,
      s\<lparr>events := events s @
         [Enter ''create_icns'', Path_exists ''Resources/AppIcon.png'', Run sips_args,
          Print msg_sips_failed]\<rparr>)"
  by (auto simp add: create_icns_def create_icns_on_def print_return_def subprocess_run_def log_def print_utf8
      exists_def Let_def)

lemma create_icns_converted:
  "files s ''Resources/AppIcon.png'' = Some f \<Longrightarrow> sips w = Tool_exits 0 \<Longrightarrow>
   create_icns w s =
     (Inr True,
      s\<lparr>files := (files s)(''Resources/AppIcon.icns'' \<mapsto> Icns f),
        events := events s @
         [Enter ''create_icns'', Path_exists ''Resources/AppIcon.png'', Run sips_args,
          Print msg_created_icns]\<rparr>)"
  by (simp add: create_icns_def create_icns_on_def print_return_def subprocess_run_def
      sips_convert_def sips_args_def log_def print_utf8 exists_def Let_def)


lemma create_icns_not_executable:
  "exists s ''Resources/AppIcon.png'' \<Longrightarrow> sips w = Tool_not_executable \<Longrightarrow>
   create_icns w s =
     (Inl PermissionError,
      s\<lparr>events := events s @
         [Enter ''create_icns'', Path_exists ''Resources/AppIcon.png'', Run sips_args]\<rparr>)"
  by (auto simp add: create_icns_def create_icns_on_def print_return_def subprocess_run_def log_def
      exists_def Let_def)

lemma resources_before_renderer: "''Resources'' \<in> dirs (before_renderer s)"
  by (simp add: before_renderer_def makedirs_def log_def)

lemma main_unfold:
  "main w s =
     (case create_icon w (before_renderer s) of
        (Inl e, s3) \<Rightarrow> (exit_status e, s3)
      | (Inr ok, s3) \<Rightarrow>
          if ok then
            (case create_icns w s3 of
               (Inl e, s4) \<Rightarrow> (exit_status e, s4)
             | (Inr r, s4) \<Rightarrow> (0, s4\<lparr>events := events s4 @ [Print msg_complete]\<rparr>))
          else (1, s3\<lparr>events := events s3 @ [Print msg_failed]\<rparr>))"
  by (simp add: main_def main_on_def create_icon_def create_icns_def before_renderer_def
      print_utf8 log_def exit_status_def Let_def split: prod.splits sum.splits)

lemma main_tool_missing:
  assumes "PIL_AVAILABLE w" and "sips w = Tool_missing"
  shows "main w s =
    (0,
     s\<lparr>dirs := insert ''Resources'' (dirs s),
        files := (files s)
          (''Resources/AppIcon.png'' \<mapsto> Png icon_image,
           ''Resources/AppIcon_16x16.png'' \<mapsto> Png (Resize icon_image (16, 16) LANCZOS),
           ''Resources/AppIcon_32x32.png'' \<mapsto> Png (Resize icon_image (32, 32) LANCZOS),
           ''Resources/AppIcon_64x64.png'' \<mapsto> Png (Resize icon_image (64, 64) LANCZOS),
           ''Resources/AppIcon_128x128.png'' \<mapsto> Png (Resize icon_image (128, 128) LANCZOS),
           ''Resources/AppIcon_256x256.png'' \<mapsto> Png (Resize icon_image (256, 256) LANCZOS),
           ''Resources/AppIcon_512x512.png'' \<mapsto> Png (Resize icon_image (512, 512) LANCZOS)),
        events := events s @
          [Print msg_start,
           Makedirs ''Resources'',
           Enter ''create_icon'',
           Save ''Resources/AppIcon.png'' icon_image,
           Print msg_created_png,
           Save ''Resources/AppIcon_16x16.png'' (Resize icon_image (16, 16) LANCZOS),
           Save ''Resources/AppIcon_32x32.png'' (Resize icon_image (32, 32) LANCZOS),
           Save ''Resources/AppIcon_64x64.png'' (Resize icon_image (64, 64) LANCZOS),
           Save ''Resources/AppIcon_128x128.png'' (Resize icon_image (128, 128) LANCZOS),
           Save ''Resources/AppIcon_256x256.png'' (Resize icon_image (256, 256) LANCZOS),
           Save ''Resources/AppIcon_512x512.png'' (Resize icon_image (512, 512) LANCZOS),
           Print msg_created_sizes,
           Enter ''create_icns'',
           Path_exists ''Resources/AppIcon.png'',
           Run sips_args,
           Print msg_sips_missing,
           Print msg_complete]\<rparr>)"
  unfolding main_unfold create_icon_ok [OF assms(1) resources_before_renderer]
  using assms(2-)
  by (simp add: create_icns_missing before_renderer_def makedirs_def log_def exists_def exit_status_def)

lemma main_tool_failed:
  assumes "PIL_AVAILABLE w" and "sips w = Tool_exits rc" and "rc \<noteq> 0"
  shows "main w s =
    (0,
     s\<lparr>dirs := insert ''Resources'' (dirs s),
        files := (files s)
          (''Resources/AppIcon.png'' \<mapsto> Png icon_image,
           ''Resources/AppIcon_16x16.png'' \<mapsto> Png (Resize icon_image (16, 16) LANCZOS),
           ''Resources/AppIcon_32x32.png'' \<mapsto> Png (Resize icon_image (32, 32) LANCZOS),
           ''Resources/AppIcon_64x64.png'' \<mapsto> Png (Resize icon_image (64, 64) LANCZOS),
           ''Resources/AppIcon_128x128.png'' \<mapsto> Png (Resize icon_image (128, 128) LANCZOS),
           ''Resources/AppIcon_256x256.png'' \<mapsto> Png (Resize icon_image (256, 256) LANCZOS),
           ''Resources/AppIcon_512x512.png'' \<mapsto> Png (Resize icon_image (512, 512) LANCZOS)),
        events := events s @
          [Print msg_start,
           Makedirs ''Resources'',
           Enter ''create_icon'',
           Save ''Resources/AppIcon.png'' icon_image,
           Print msg_created_png,
           Save ''Resources/AppIcon_16x16.png'' (Resize icon_image (16, 16) LANCZOS),
           Save ''Resources/AppIcon_32x32.png'' (Resize icon_image (32, 32) LANCZOS),
           Save ''Resources/AppIcon_64x64.png'' (Resize icon_image (64, 64) LANCZOS),
           Save ''Resources/AppIcon_128x128.png'' (Resize icon_image (128, 128) LANCZOS),
           Save ''Resources/AppIcon_256x256.png'' (Resize icon_image (256, 256) LANCZOS),
           Save ''Resources/AppIcon_512x512.png'' (Resize icon_image (512, 512) LANCZOS),
           Print msg_created_sizes,
           Enter ''create_icns'',
           Path_exists ''Resources/AppIcon.png'',
           Run sips_args,
           Print msg_sips_failed,
           Print msg_complete]\<rparr>)"
  unfolding main_unfold create_icon_ok [OF assms(1) resources_before_renderer]
  using assms(2-)
  by (simp add: create_icns_failed before_renderer_def makedirs_def log_def exists_def exit_status_def)

lemma main_tool_ok:
  assumes "PIL_AVAILABLE w" and "sips w = Tool_exits 0"
  shows "main w s =
    (0,
     s\<lparr>dirs := insert ''Resources'' (dirs s),
        files := (files s)
          (''Resources/AppIcon.png'' \<mapsto> Png icon_image,
           ''Resources/AppIcon_16x16.png'' \<mapsto> Png (Resize icon_image (16, 16) LANCZOS),
           ''Resources/AppIcon_32x32.png'' \<mapsto> Png (Resize icon_image (32, 32) LANCZOS),
           ''Resources/AppIcon_64x64.png'' \<mapsto> Png (Resize icon_image (64, 64) LANCZOS),
           ''Resources/AppIcon_128x128.png'' \<mapsto> Png (Resize icon_image (128, 128) LANCZOS),
           ''Resources/AppIcon_256x256.png'' \<mapsto> Png (Resize icon_image (256, 256) LANCZOS),
           ''Resources/AppIcon_512x512.png'' \<mapsto> Png (Resize icon_image (512, 512) LANCZOS),
           ''Resources/AppIcon.icns'' \<mapsto> Icns (Png icon_image)),
        events := events s @
          [Print msg_start,
           Makedirs ''Resources'',
           Enter ''create_icon'',
           Save ''Resources/AppIcon.png'' icon_image,
           Print msg_created_png,
           Save ''Resources/AppIcon_16x16.png'' (Resize icon_image (16, 16) LANCZOS),
           Save ''Resources/AppIcon_32x32.png'' (Resize icon_image (32, 32) LANCZOS),
           Save ''Resources/AppIcon_64x64.png'' (Resize icon_image (64, 64) LANCZOS),
           Save ''Resources/AppIcon_128x128.png'' (Resize icon_image (128, 128) LANCZOS),
           Save ''Resources/AppIcon_256x256.png'' (Resize icon_image (256, 256) LANCZOS),
           Save ''Resources/AppIcon_512x512.png'' (Resize icon_image (512, 512) LANCZOS),
           Print msg_created_sizes,
           Enter ''create_icns'',
           Path_exists ''Resources/AppIcon.png'',
           Run sips_args,
           Print msg_created_icns,
           Print msg_complete]\<rparr>)"
  unfolding main_unfold create_icon_ok [OF assms(1) resources_before_renderer]
  using assms(2-)
  by (simp add: create_icns_converted [where f = "Png icon_image"] before_renderer_def makedirs_def log_def exists_def exit_status_def)

lemma main_tool_not_executable:
  assumes "PIL_AVAILABLE w" and "sips w = Tool_not_executable"
  shows "main w s =
    (1,
     s\<lparr>dirs := insert ''Resources'' (dirs s),
        files := (files s)
          (''Resources/AppIcon.png'' \<mapsto> Png icon_image,
           ''Resources/AppIcon_16x16.png'' \<mapsto> Png (Resize icon_image (16, 16) LANCZOS),
           ''Resources/AppIcon_32x32.png'' \<mapsto> Png (Resize icon_image (32, 32) LANCZOS),
           ''Resources/AppIcon_64x64.png'' \<mapsto> Png (Resize icon_image (64, 64) LANCZOS),
           ''Resources/AppIcon_128x128.png'' \<mapsto> Png (Resize icon_image (128, 128) LANCZOS),
           ''Resources/AppIcon_256x256.png'' \<mapsto> Png (Resize icon_image (256, 256) LANCZOS),
           ''Resources/AppIcon_512x512.png'' \<mapsto> Png (Resize icon_image (512, 512) LANCZOS)),
        events := events s @
          [Print msg_start,
           Makedirs ''Resources'',
           Enter ''create_icon'',
           Save ''Resources/AppIcon.png'' icon_image,
           Print msg_created_png,
           Save ''Resources/AppIcon_16x16.png'' (Resize icon_image (16, 16) LANCZOS),
           Save ''Resources/AppIcon_32x32.png'' (Resize icon_image (32, 32) LANCZOS),
           Save ''Resources/AppIcon_64x64.png'' (Resize icon_image (64, 64) LANCZOS),
           Save ''Resources/AppIcon_128x128.png'' (Resize icon_image (128, 128) LANCZOS),
           Save ''Resources/AppIcon_256x256.png'' (Resize icon_image (256, 256) LANCZOS),
           Save ''Resources/AppIcon_512x512.png'' (Resize icon_image (512, 512) LANCZOS),
           Print msg_created_sizes,
           Enter ''create_icns'',
           Path_exists ''Resources/AppIcon.png'',
           Run sips_args]\<rparr>)"
  unfolding main_unfold create_icon_ok [OF assms(1) resources_before_renderer]
  using assms(2-)
  by (simp add: create_icns_not_executable before_renderer_def makedirs_def log_def exists_def exit_status_def)

lemma main_no_pil:
  assumes "\<not> PIL_AVAILABLE w"
  shows "main w s =
    (1,
     s\<lparr>dirs := insert ''Resources'' (dirs s),
        events := events s @
          [Print msg_start, Makedirs ''Resources'', Enter ''create_icon'',
           Print msg_no_pil, Print msg_failed]\<rparr>)"
  unfolding main_unfold create_icon_no_pil [OF assms]
  by (simp add: before_renderer_def makedirs_def log_def)

section \<open>What a run leaves behind\<close>

lemma tool_cases:
  obtains "sips w = Tool_missing"
  | "sips w = Tool_not_executable"
  | rc where "sips w = Tool_exits rc" and "rc \<noteq> 0"
  | "sips w = Tool_exits 0"
  by (cases "sips w") auto

lemma printed_append: "printed (xs @ ys) = printed xs @ printed ys"
  by (induction xs rule: printed.induct) simp_all

lemma saved_append: "saved (xs @ ys) = saved xs @ saved ys"
  by (induction xs rule: saved.induct) simp_all

lemma commands_append: "commands (xs @ ys) = commands xs @ commands ys"
  by (induction xs rule: commands.induct) simp_all

lemma trace_append: "events (snd (main w s)) = events s @ tr \<Longrightarrow> trace w s = tr"
  by (simp add: trace_def)

lemma main_status:
  "fst (main w s) = (if PIL_AVAILABLE w \<and> sips w \<noteq> Tool_not_executable then 0 else 1)"
proof (cases "PIL_AVAILABLE w")
  case True
  then show ?thesis
    by (cases w rule: tool_cases)
      (simp_all add: main_tool_missing main_tool_failed main_tool_ok main_tool_not_executable)
next
  case False
  then show ?thesis by (simp add: main_no_pil)
qed

lemma main_dirs: "dirs (snd (main w s)) = insert ''Resources'' (dirs s)"
proof (cases "PIL_AVAILABLE w")
  case True
  then show ?thesis
    by (cases w rule: tool_cases)
      (simp_all add: main_tool_missing main_tool_failed main_tool_ok main_tool_not_executable)
next
  case False
  then show ?thesis by (simp add: main_no_pil)
qed

lemma renderer_result_eq: "renderer_result w s = Inr (PIL_AVAILABLE w)"
proof (cases "PIL_AVAILABLE w")
  case True
  show ?thesis
    unfolding renderer_result_def create_icon_ok [OF True resources_before_renderer]
    using True by simp
next
  case False
  then show ?thesis
    by (simp add: renderer_result_def create_icon_no_pil)
qed

lemma main_files_pil:
  assumes "PIL_AVAILABLE w"
  shows "files (snd (main w s)) =
    (if sips w = Tool_exits 0
     then (files s)
     (''Resources/AppIcon.png'' \<mapsto> Png icon_image,
      ''Resources/AppIcon_16x16.png'' \<mapsto> Png (Resize icon_image (16, 16) LANCZOS),
      ''Resources/AppIcon_32x32.png'' \<mapsto> Png (Resize icon_image (32, 32) LANCZOS),
      ''Resources/AppIcon_64x64.png'' \<mapsto> Png (Resize icon_image (64, 64) LANCZOS),
      ''Resources/AppIcon_128x128.png'' \<mapsto> Png (Resize icon_image (128, 128) LANCZOS),
      ''Resources/AppIcon_256x256.png'' \<mapsto> Png (Resize icon_image (256, 256) LANCZOS),
      ''Resources/AppIcon_512x512.png'' \<mapsto> Png (Resize icon_image (512, 512) LANCZOS),
      ''Resources/AppIcon.icns'' \<mapsto> Icns (Png icon_image))
     else (files s)
     (''Resources/AppIcon.png'' \<mapsto> Png icon_image,
      ''Resources/AppIcon_16x16.png'' \<mapsto> Png (Resize icon_image (16, 16) LANCZOS),
      ''Resources/AppIcon_32x32.png'' \<mapsto> Png (Resize icon_image (32, 32) LANCZOS),
      ''Resources/AppIcon_64x64.png'' \<mapsto> Png (Resize icon_image (64, 64) LANCZOS),
      ''Resources/AppIcon_128x128.png'' \<mapsto> Png (Resize icon_image (128, 128) LANCZOS),
      ''Resources/AppIcon_256x256.png'' \<mapsto> Png (Resize icon_image (256, 256) LANCZOS),
      ''Resources/AppIcon_512x512.png'' \<mapsto> Png (Resize icon_image (512, 512) LANCZOS)))"
  using assms
  by (cases w rule: tool_cases)
    (simp_all add: main_tool_missing main_tool_failed main_tool_ok main_tool_not_executable)

lemma main_trace_pil:
  assumes "PIL_AVAILABLE w"
  shows "trace w s =
     [Print msg_start,
      Makedirs ''Resources'',
      Enter ''create_icon'',
      Save ''Resources/AppIcon.png'' icon_image,
      Print msg_created_png,
      Save ''Resources/AppIcon_16x16.png'' (Resize icon_image (16, 16) LANCZOS),
      Save ''Resources/AppIcon_32x32.png'' (Resize icon_image (32, 32) LANCZOS),
      Save ''Resources/AppIcon_64x64.png'' (Resize icon_image (64, 64) LANCZOS),
      Save ''Resources/AppIcon_128x128.png'' (Resize icon_image (128, 128) LANCZOS),
      Save ''Resources/AppIcon_256x256.png'' (Resize icon_image (256, 256) LANCZOS),
      Save ''Resources/AppIcon_512x512.png'' (Resize icon_image (512, 512) LANCZOS),
      Print msg_created_sizes,
      Enter ''create_icns'',
      Path_exists ''Resources/AppIcon.png'',
      Run sips_args] @
     (case sips w of
        Tool_missing \<Rightarrow> [Print msg_sips_missing, Print msg_complete]
      | Tool_not_executable \<Rightarrow> []
      | Tool_exits rc \<Rightarrow>
          [Print (if rc \<noteq> 0 then msg_sips_failed else msg_created_icns), Print msg_complete])"
  using assms
  by (cases w rule: tool_cases)
    (simp_all add: trace_append main_tool_missing main_tool_failed main_tool_ok
      main_tool_not_executable)

lemma main_files_no_pil: "\<not> PIL_AVAILABLE w \<Longrightarrow> files (snd (main w s)) = files s"
  by (simp add: main_no_pil)

lemma main_trace_no_pil:
  "\<not> PIL_AVAILABLE w \<Longrightarrow>
   trace w s =
     [Print msg_start, Makedirs ''Resources'', Enter ''create_icon'',
      Print msg_no_pil, Print msg_failed]"
  by (simp add: trace_append main_no_pil)

lemma create_icon_needs_directory:
  "PIL_AVAILABLE w \<Longrightarrow> ''Resources'' \<notin> dirs s \<Longrightarrow>
   create_icon w s = (Inl FileNotFoundError, log (Enter ''create_icon'') s)"
  by (simp add: create_icon_def create_icon_on_def save_def dirname_vals log_def)

lemma save_dirs: "save img p s = Inr s' \<Longrightarrow> dirs s' = dirs s"
  by (auto simp add: save_def log_def split: if_splits)

lemma save_sizes_dirs: "dirs (snd (save_sizes img ks s)) = dirs s"
proof (induction ks arbitrary: s)
  case Nil
  then show ?case by simp
next
  case (Cons k ks)
  show ?case
  proof (cases "save (Resize img (k, k) LANCZOS) (size_path k) s")
    case (Inl e)
    then show ?thesis by simp
  next
    case (Inr s')
    with Cons [of s'] save_dirs [OF Inr] show ?thesis by simp
  qed
qed

lemma print_dirs: "print_py enc msg s = Inr s' \<Longrightarrow> dirs s' = dirs s"
  by (auto simp add: print_py_def log_def split: if_splits)

lemma save_sizes_dirs_eq: "save_sizes img ks s = (r, s') \<Longrightarrow> dirs s' = dirs s"
  using save_sizes_dirs [of img ks s] by simp

lemma create_icon_on_dirs: "dirs (snd (create_icon_on enc w s)) = dirs s"
proof -
  define s0 where "s0 = log (Enter ''create_icon'') s"
  have d0: "dirs s0 = dirs s"
    by (simp add: s0_def log_def)
  show ?thesis
  proof (cases "PIL_AVAILABLE w")
    case False
    show ?thesis
    proof (cases "print_py enc msg_no_pil s0")
      case (Inl e)
      with False d0 show ?thesis
        by (simp add: create_icon_on_def s0_def [symmetric])
    next
      case (Inr s1)
      with False d0 print_dirs [OF Inr] show ?thesis
        by (simp add: create_icon_on_def s0_def [symmetric])
    qed
  next
    case True
    show ?thesis
    proof (cases "save icon_image ''Resources/AppIcon.png'' s0")
      case (Inl e)
      with True d0 show ?thesis
        by (simp add: create_icon_on_def s0_def [symmetric])
    next
      case s1: (Inr s1)
      note d1 = save_dirs [OF s1]
      show ?thesis
      proof (cases "print_py enc msg_created_png s1")
        case (Inl e)
        with True s1 d0 d1 show ?thesis
          by (simp add: create_icon_on_def s0_def [symmetric])
      next
        case s2: (Inr s2)
        note d2 = print_dirs [OF s2]
        obtain r s3 where s3: "save_sizes icon_image sizes s2 = (r, s3)"
          by (cases "save_sizes icon_image sizes s2")
        note d3 = save_sizes_dirs_eq [OF s3]
        show ?thesis
        proof (cases r)
          case (Some e)
          with True s1 s2 s3 d0 d1 d2 d3 show ?thesis
            by (simp add: create_icon_on_def s0_def [symmetric])
        next
          case None
          show ?thesis
          proof (cases "print_py enc msg_created_sizes s3")
            case (Inl e)
            with None True s1 s2 s3 d0 d1 d2 d3 show ?thesis
              by (simp add: create_icon_on_def s0_def [symmetric])
          next
            case s4: (Inr s4)
            with None True s1 s2 s3 d0 d1 d2 d3 print_dirs [OF s4] show ?thesis
              by (simp add: create_icon_on_def s0_def [symmetric])
          qed
        qed
      qed
    qed
  qed
qed









section \<open>The drawing\<close>

text \<open>
  Claim C4. The six outer nodes are the ellipses drawn after the background and the hub.
  For every index \<open>i\<close> from 0 to 5 the centre of the \<open>i\<close>-th node is the canvas centre
  plus 150 times (cos, sin) of \<open>60 * i\<close> degrees, so it lies at Euclidean distance 150
  from the canvas centre \<open>(256, 256)\<close>. The coordinates are those of the model, where the
  floats of the script are real numbers; the last conjunct gives them in closed form.
\<close>

theorem node_centers_on_circle:
  "length node_centers = 6 \<and>
   (\<forall>i<6. node_centers ! i =
             (real_of_int center + 150 * cos (radians (real (60 * i))),
              real_of_int center + 150 * sin (radians (real (60 * i)))) \<and>
           distance (node_centers ! i) (real_of_int center, real_of_int center) = 150) \<and>
   center = 256 \<and>
   node_centers =
     [(406, 256), (331, 256 + 75 * sqrt 3), (181, 256 + 75 * sqrt 3),
      (106, 256), (181, 256 - 75 * sqrt 3), (331, 256 - 75 * sqrt 3)]"
proof -
  have c: "center = 256"
    by (simp add: center_def size_px_def)
  have len: "length node_centers = 6"
    by (simp add: node_centers_vals)
  have "node_centers ! i =
          (real_of_int center + 150 * cos (radians (real (60 * i))),
           real_of_int center + 150 * sin (radians (real (60 * i)))) \<and>
        distance (node_centers ! i) (real_of_int center, real_of_int center) = 150"
    if "i < 6" for i
    using less_6_cases [OF that]
    by (elim disjE) (simp_all add: c node_centers_vals cos_vals sin_vals dist_vals)
  then have every: "\<forall>i<6. node_centers ! i =
          (real_of_int center + 150 * cos (radians (real (60 * i))),
           real_of_int center + 150 * sin (radians (real (60 * i)))) \<and>
        distance (node_centers ! i) (real_of_int center, real_of_int center) = 150"
    by blast
  show ?thesis
    by (rule conjI [OF len conjI [OF every conjI [OF c node_centers_vals]]])
qed

theorem node_centers_on_circle_witness:
  "(4::nat) < 6 \<and> node_centers ! 4 = (181, 256 - 75 * sqrt 3) \<and>
   distance (node_centers ! 4) (256, 256) = 150"
  using node_centers_on_circle [THEN conjunct2, THEN conjunct1, rule_format, of 4]
  by (auto simp add: center_def size_px_def cos_vals sin_vals)

text \<open>
  Claim C5. For every index \<open>i\<close> from 0 to 5 the fill colour of the \<open>i\<close>-th node is the
  accent colour when \<open>i\<close> is even and the secondary colour when \<open>i\<close> is odd; the two
  colours differ, so neighbouring nodes never have the same fill.
\<close>

theorem node_fill_alternates:
  "length node_fills = 6 \<and>
   (\<forall>i<6. node_fills ! i = (if i mod 2 = 0 then accent_color else secondary_color)) \<and>
   (\<forall>i<5. node_fills ! i \<noteq> node_fills ! Suc i) \<and>
   accent_color = (255, 140, 0, 255) \<and> secondary_color = (255, 255, 255, 255)"
proof -
  have len: "length node_fills = 6"
    by (simp add: node_fills_vals)
  have "node_fills ! i = (if i mod 2 = 0 then accent_color else secondary_color)"
    if "i < 6" for i
    using less_6_cases [OF that]
    by (elim disjE) (simp_all add: node_fills_vals)
  then have a: "\<forall>i<6. node_fills ! i = (if i mod 2 = 0 then accent_color else secondary_color)"
    by blast
  have ne: "accent_color \<noteq> secondary_color"
    by (simp add: accent_color_def secondary_color_def)
  have "node_fills ! i \<noteq> node_fills ! Suc i" if "i < 5" for i
  proof -
    from that have "i = 0 \<or> i = 1 \<or> i = 2 \<or> i = 3 \<or> i = 4" by arith
    then show ?thesis
      using ne by (elim disjE) (simp_all add: node_fills_vals)
  qed
  then have b: "\<forall>i<5. node_fills ! i \<noteq> node_fills ! Suc i"
    by blast
  show ?thesis
    by (rule conjI [OF len conjI [OF a conjI [OF b conjI [OF accent_color_def secondary_color_def]]]])
qed

theorem node_fill_alternates_witness:
  "(2::nat) < 6 \<and> (3::nat) < 6 \<and>
   node_fills ! 2 = (255, 140, 0, 255) \<and> node_fills ! 3 = (255, 255, 255, 255)"
  using node_fill_alternates [THEN conjunct2, THEN conjunct1, rule_format, of 2]
    node_fill_alternates [THEN conjunct2, THEN conjunct1, rule_format, of 3]
  by (simp add: accent_color_def secondary_color_def)

section \<open>The files written\<close>

text \<open>
  Claim C1. When the image library is available, a run of the program saves exactly
  seven PNG files, in this order: \<open>Resources/AppIcon.png\<close> of 512 by 512 pixels and
  \<open>Resources/AppIcon_KxK.png\<close> of \<open>K\<close> by \<open>K\<close> pixels for \<open>K\<close> = 16, 32, 64, 128, 256
  and 512. Each of them is in the file system after the run, and every other path holds
  what it held before, except that \<open>Resources/AppIcon.icns\<close> holds the icon bundle when
  the conversion tool succeeded; no other PNG file is written.
\<close>

theorem png_outputs:
  assumes "PIL_AVAILABLE w"
  shows "map (\<lambda>(p, img). (p, image_size img)) (saved (trace w s)) =
     [(''Resources/AppIcon.png'', (512, 512)),
      (''Resources/AppIcon_16x16.png'', (16, 16)),
      (''Resources/AppIcon_32x32.png'', (32, 32)),
      (''Resources/AppIcon_64x64.png'', (64, 64)),
      (''Resources/AppIcon_128x128.png'', (128, 128)),
      (''Resources/AppIcon_256x256.png'', (256, 256)),
      (''Resources/AppIcon_512x512.png'', (512, 512))] \<and>
   (\<forall>(p, img) \<in> set (saved (trace w s)). files (snd (main w s)) p = Some (Png img)) \<and>
   (\<forall>p. p \<notin> {''Resources/AppIcon.png'',
          ''Resources/AppIcon_16x16.png'',
          ''Resources/AppIcon_32x32.png'',
          ''Resources/AppIcon_64x64.png'',
          ''Resources/AppIcon_128x128.png'',
          ''Resources/AppIcon_256x256.png'',
          ''Resources/AppIcon_512x512.png''} \<longrightarrow>
        files (snd (main w s)) p =
          (if p = ''Resources/AppIcon.icns'' \<and> sips w = Tool_exits 0
           then Some (Icns (Png icon_image)) else files s p))"
  (is "?sizes \<and> ?stored \<and> ?others")
proof -
  have sz: "image_size icon_image = (512, 512)"
    by (simp add: icon_image_def size_px_def)
  have a: ?sizes
    by (cases w rule: tool_cases) (simp_all add: main_trace_pil [OF assms] sz)
  have b: ?stored
    by (cases w rule: tool_cases)
      (simp_all add: main_trace_pil [OF assms] main_files_pil [OF assms])
  have c: ?others
    by (simp add: main_files_pil [OF assms])
  show ?thesis
    by (rule conjI [OF a conjI [OF b c]])
qed

theorem png_outputs_witness:
  "PIL_AVAILABLE (plain_world True (Tool_exits 0)) \<and>
   map (\<lambda>(p, img). (p, image_size img)) (saved (trace (plain_world True (Tool_exits 0)) empty_state)) =
     [(''Resources/AppIcon.png'', (512, 512)),
      (''Resources/AppIcon_16x16.png'', (16, 16)),
      (''Resources/AppIcon_32x32.png'', (32, 32)),
      (''Resources/AppIcon_64x64.png'', (64, 64)),
      (''Resources/AppIcon_128x128.png'', (128, 128)),
      (''Resources/AppIcon_256x256.png'', (256, 256)),
      (''Resources/AppIcon_512x512.png'', (512, 512))] \<and>
   ''Resources/Notes.png'' \<notin> {''Resources/AppIcon.png'',
          ''Resources/AppIcon_16x16.png'',
          ''Resources/AppIcon_32x32.png'',
          ''Resources/AppIcon_64x64.png'',
          ''Resources/AppIcon_128x128.png'',
          ''Resources/AppIcon_256x256.png'',
          ''Resources/AppIcon_512x512.png''} \<and>
   files (snd (main (plain_world True (Tool_exits 0)) empty_state)) ''Resources/Notes.png'' = None"
proof -
  have h: "PIL_AVAILABLE (plain_world True (Tool_exits 0))"
    by (simp add: plain_world_def)
  have n: "''Resources/Notes.png'' \<notin> {''Resources/AppIcon.png'',
          ''Resources/AppIcon_16x16.png'',
          ''Resources/AppIcon_32x32.png'',
          ''Resources/AppIcon_64x64.png'',
          ''Resources/AppIcon_128x128.png'',
          ''Resources/AppIcon_256x256.png'',
          ''Resources/AppIcon_512x512.png''}"
    by simp
  from png_outputs [OF h, of empty_state, THEN conjunct2, THEN conjunct2, rule_format, OF n]
  have "files (snd (main (plain_world True (Tool_exits 0)) empty_state)) ''Resources/Notes.png'' = None"
    by (simp add: empty_state_def plain_world_def)
  with h n png_outputs [OF h, of empty_state, THEN conjunct1] show ?thesis
    by blast
qed

text \<open>
  Claim C8 (amended). The directory is the entry point's work, not the renderer's: a
  run creates \<open>Resources\<close> if it is absent before \<open>create_icon\<close> is entered, and
  \<open>create_icon\<close> itself never changes the set of directories. With the image library
  available the renderer then saves, into that directory, the full image and its six
  copies resized to 16, 32, 64, 128, 256 and 512 pixels with the LANCZOS filter, under the
  names built from the sizes.
\<close>

theorem entry_point_prepares_directory:
  assumes "PIL_AVAILABLE w"
  shows "dirs (snd (main w s)) = insert ''Resources'' (dirs s) \<and>
     takeWhile (\<lambda>e. e \<noteq> Enter ''create_icon'') (trace w s) =
       [Print msg_start, Makedirs ''Resources''] \<and>
     saved (trace w s) =
       (''Resources/AppIcon.png'', icon_image) #
       map (\<lambda>k. (''Resources/AppIcon_'' @ str k @ ''x'' @ str k @ ''.png'',
                  Resize icon_image (k, k) LANCZOS))
         [16, 32, 64, 128, 256, 512] \<and>
     files (snd (main w s)) ''Resources/AppIcon.png'' = Some (Png icon_image) \<and>
     (\<forall>k \<in> {16, 32, 64, 128, 256, 512}.
        files (snd (main w s)) (''Resources/AppIcon_'' @ str k @ ''x'' @ str k @ ''.png'') =
          Some (Png (Resize icon_image (k, k) LANCZOS))) \<and>
     (image_size icon_image = (512, 512) \<and> image_mode icon_image = ''RGBA'') \<and>
     (\<forall>s'. dirs (snd (create_icon w s')) = dirs s')"
  (is "?dir \<and> ?first \<and> ?saved \<and> ?full \<and> ?copies \<and> ?size \<and> ?renderer")
proof -
  have a: ?dir
    by (rule main_dirs)
  have b: ?first
    by (cases w rule: tool_cases) (simp_all add: main_trace_pil [OF assms])
  have c: ?saved
    using size_path_vals
    by (cases w rule: tool_cases) (simp_all add: main_trace_pil [OF assms] size_path_def)
  have d: ?full
    by (simp add: main_files_pil [OF assms])
  have e: ?copies
    using size_path_vals
    by (simp add: main_files_pil [OF assms] size_path_def)
  have f: ?size
    by (simp add: icon_image_def size_px_def)
  have g: ?renderer
    by (simp add: create_icon_def create_icon_on_dirs)
  show ?thesis
    by (rule conjI [OF a conjI [OF b conjI [OF c conjI [OF d conjI [OF e conjI [OF f g]]]]]])
qed

theorem entry_point_prepares_directory_witness:
  "PIL_AVAILABLE (plain_world True Tool_missing) \<and>
   ''Resources'' \<notin> dirs empty_state \<and>
   ''Resources'' \<in> dirs (snd (main (plain_world True Tool_missing) empty_state)) \<and>
   files (snd (main (plain_world True Tool_missing) empty_state)) ''Resources/AppIcon_128x128.png'' =
     Some (Png (Resize icon_image (128, 128) LANCZOS)) \<and>
   dirs (snd (create_icon (plain_world True Tool_missing) (before_renderer empty_state))) =
     {''Resources''}"
proof -
  have h: "PIL_AVAILABLE (plain_world True Tool_missing)"
    by (simp add: plain_world_def)
  have k: "(128::int) \<in> {16, 32, 64, 128, 256, 512}"
    by simp
  have n: "''Resources/AppIcon_'' @ str 128 @ ''x'' @ str 128 @ ''.png'' =
      ''Resources/AppIcon_128x128.png''"
    by (simp add: str_def str_nat.simps)
  note t = entry_point_prepares_directory [OF h, of empty_state]
  from t have "''Resources'' \<in> dirs (snd (main (plain_world True Tool_missing) empty_state))"
    by simp
  moreover from t [THEN conjunct2, THEN conjunct2, THEN conjunct2, THEN conjunct2,
      THEN conjunct1, rule_format, OF k]
  have "files (snd (main (plain_world True Tool_missing) empty_state))
      ''Resources/AppIcon_128x128.png'' = Some (Png (Resize icon_image (128, 128) LANCZOS))"
    by (simp only: n)
  moreover have "''Resources'' \<notin> dirs empty_state"
    by (simp add: empty_state_def)
  moreover from t [THEN conjunct2, THEN conjunct2, THEN conjunct2, THEN conjunct2,
      THEN conjunct2, THEN conjunct2, rule_format, of "before_renderer empty_state"]
  have "dirs (snd (create_icon (plain_world True Tool_missing) (before_renderer empty_state))) =
      {''Resources''}"
    by (simp add: before_renderer_def makedirs_def log_def empty_state_def)
  ultimately show ?thesis
    using h by blast
qed

text \<open>
  As the claim is written, with the renderer creating the directory, it fails: called
  where \<open>Resources\<close> is absent, \<open>create_icon\<close> creates no directory and saves no file; its
  first save raises \<open>FileNotFoundError\<close>.
\<close>

theorem renderer_creates_directory_counterexample:
  "PIL_AVAILABLE (plain_world True (Tool_exits 0)) \<and>
   ''Resources'' \<notin> dirs empty_state \<and>
   fst (create_icon (plain_world True (Tool_exits 0)) empty_state) = Inl FileNotFoundError \<and>
   ''Resources'' \<notin> dirs (snd (create_icon (plain_world True (Tool_exits 0)) empty_state)) \<and>
   files (snd (create_icon (plain_world True (Tool_exits 0)) empty_state)) = Map.empty \<and>
   saved (events (snd (create_icon (plain_world True (Tool_exits 0)) empty_state))) = []"
proof -
  have h: "PIL_AVAILABLE (plain_world True (Tool_exits 0))"
    by (simp add: plain_world_def)
  have n: "''Resources'' \<notin> dirs empty_state"
    by (simp add: empty_state_def)
  have "create_icon (plain_world True (Tool_exits 0)) empty_state =
      (Inl FileNotFoundError, log (Enter ''create_icon'') empty_state)"
    by (rule create_icon_needs_directory [OF h n])
  then have "fst (create_icon (plain_world True (Tool_exits 0)) empty_state) =
      Inl FileNotFoundError"
    and "''Resources'' \<notin> dirs (snd (create_icon (plain_world True (Tool_exits 0)) empty_state))"
    and "files (snd (create_icon (plain_world True (Tool_exits 0)) empty_state)) = Map.empty"
    and "saved (events (snd (create_icon (plain_world True (Tool_exits 0)) empty_state))) = []"
    by (simp_all add: log_def empty_state_def)
  with h n show ?thesis
    by blast
qed

section \<open>Exit status and sequencing\<close>




text \<open>
  Claim C3. Without the image library \<open>create_icon\<close> prints the install hint and
  returns \<open>False\<close>, raising nothing. The whole run prints the start line, the hint and the
  failure line, saves nothing, runs no command, leaves every file as it was and exits with
  status 1. (The entry point has made the directory \<open>Resources\<close> by then; no file is in
  it on account of this run.)
\<close>

theorem no_pil_fails:
  assumes "\<not> PIL_AVAILABLE w"
  shows "create_icon w s =
       (Inr False, s\<lparr>events := events s @ [Enter ''create_icon'', Print msg_no_pil]\<rparr>) \<and>
     msg_no_pil = ''PIL (Pillow) not available. Install with: pip3 install Pillow'' \<and>
     printed (trace w s) = [msg_start, msg_no_pil, msg_failed] \<and>
     saved (trace w s) = [] \<and>
     commands (trace w s) = [] \<and>
     files (snd (main w s)) = files s \<and>
     dirs (snd (main w s)) = insert ''Resources'' (dirs s) \<and>
     fst (main w s) = 1"
  using assms
  by (simp add: create_icon_no_pil msg_no_pil_def main_trace_no_pil main_files_no_pil
      main_dirs main_status)

theorem no_pil_fails_witness:
  "\<not> PIL_AVAILABLE (plain_world False (Tool_exits 0)) \<and>
   fst (create_icon (plain_world False (Tool_exits 0)) empty_state) = Inr False \<and>
   files (snd (main (plain_world False (Tool_exits 0)) empty_state)) = Map.empty \<and>
   fst (main (plain_world False (Tool_exits 0)) empty_state) = 1"
proof -
  have h: "\<not> PIL_AVAILABLE (plain_world False (Tool_exits 0))"
    by (simp add: plain_world_def)
  show ?thesis
    using h no_pil_fails [OF h, of empty_state] by (simp add: empty_state_def)
qed

text \<open>
  Claim C6. \<open>create_icns\<close> is entered during a run exactly when \<open>create_icon\<close> returned
  \<open>True\<close>, and then exactly once; the external command is attempted in the same runs
  and in no other.
\<close>

theorem converter_runs_iff_renderer_ok:
  "(Enter ''create_icns'' \<in> set (trace w s)) = (renderer_result w s = Inr True) \<and>
   length (filter (\<lambda>e. e = Enter ''create_icns'') (trace w s)) =
     (if renderer_result w s = Inr True then 1 else 0) \<and>
   (commands (trace w s) \<noteq> []) = (renderer_result w s = Inr True)"
proof (cases "PIL_AVAILABLE w")
  case True
  then show ?thesis
    by (cases w rule: tool_cases) (simp_all add: renderer_result_eq main_trace_pil)
next
  case False
  then show ?thesis
    by (simp add: renderer_result_eq main_trace_no_pil)
qed

theorem converter_runs_iff_renderer_ok_witness:
  "Enter ''create_icns'' \<in> set (trace (plain_world True Tool_missing) empty_state) \<and>
   Enter ''create_icns'' \<notin> set (trace (plain_world False Tool_missing) empty_state) \<and>
   commands (trace (plain_world False Tool_missing) empty_state) = []"
proof -
  have r: "renderer_result (plain_world True Tool_missing) empty_state = Inr True"
    "renderer_result (plain_world False Tool_missing) empty_state \<noteq> Inr True"
    by (simp_all add: renderer_result_eq plain_world_def)
  show ?thesis
    using r converter_runs_iff_renderer_ok [of "plain_world True Tool_missing" empty_state]
      converter_runs_iff_renderer_ok [of "plain_world False Tool_missing" empty_state]
    by simp
qed

section \<open>The converter\<close>

text \<open>
  Claim C7. When the conversion tool is missing or exits with a non-zero code,
  \<open>create_icns\<close> returns \<open>False\<close> without raising and leaves files and directories as
  they were; where the source PNG exists it attempts the command and prints the warning
  for that failure. In a run with the image library available the exit status is then 0,
  the seven PNG files are as the renderer wrote them, and \<open>Resources/AppIcon.icns\<close> is
  what it was before the run.
\<close>

theorem tool_failure_is_not_fatal:
  assumes "sips w = Tool_missing \<or> (\<exists>rc. rc \<noteq> 0 \<and> sips w = Tool_exits rc)"
  shows "fst (create_icns w s) = Inr False \<and>
     files (snd (create_icns w s)) = files s \<and>
     dirs (snd (create_icns w s)) = dirs s \<and>
     (exists s ''Resources/AppIcon.png'' \<longrightarrow>
        drop (length (events s)) (events (snd (create_icns w s))) =
          [Enter ''create_icns'', Path_exists ''Resources/AppIcon.png'', Run sips_args,
           Print (if sips w = Tool_missing then msg_sips_missing else msg_sips_failed)]) \<and>
     (PIL_AVAILABLE w \<longrightarrow>
        fst (main w s) = 0 \<and>
        files (snd (main w s)) =
          (files s)
          (''Resources/AppIcon.png'' \<mapsto> Png icon_image,
          ''Resources/AppIcon_16x16.png'' \<mapsto> Png (Resize icon_image (16, 16) LANCZOS),
          ''Resources/AppIcon_32x32.png'' \<mapsto> Png (Resize icon_image (32, 32) LANCZOS),
          ''Resources/AppIcon_64x64.png'' \<mapsto> Png (Resize icon_image (64, 64) LANCZOS),
          ''Resources/AppIcon_128x128.png'' \<mapsto> Png (Resize icon_image (128, 128) LANCZOS),
          ''Resources/AppIcon_256x256.png'' \<mapsto> Png (Resize icon_image (256, 256) LANCZOS),
          ''Resources/AppIcon_512x512.png'' \<mapsto> Png (Resize icon_image (512, 512) LANCZOS)) \<and>
        files (snd (main w s)) ''Resources/AppIcon.icns'' = files s ''Resources/AppIcon.icns'')"
  (is "?ret \<and> ?fs \<and> ?ds \<and> ?warn \<and> ?prog")
proof -
  from assms have no: "sips w \<noteq> Tool_exits 0" "sips w \<noteq> Tool_not_executable"
    by auto
  have abc: "?ret \<and> ?fs \<and> ?ds \<and> ?warn"
  proof (cases "exists s ''Resources/AppIcon.png''")
    case True
    from assms show ?thesis
    proof
      assume "sips w = Tool_missing"
      then show ?thesis
        by (simp add: create_icns_missing [OF True])
    next
      assume "\<exists>rc. rc \<noteq> 0 \<and> sips w = Tool_exits rc"
      then obtain rc where "rc \<noteq> 0" "sips w = Tool_exits rc"
        by blast
      then show ?thesis
        by (simp add: create_icns_failed [OF True])
    qed
  next
    case False
    then show ?thesis
      by (simp add: create_icns_not_found)
  qed
  have e: ?prog
    using no by (simp add: main_status main_files_pil)
  from abc e show ?thesis
    by blast
qed

theorem tool_failure_is_not_fatal_witness:
  "fst (main (plain_world True (Tool_exits 1)) empty_state) = 0 \<and>
   files (snd (main (plain_world True (Tool_exits 1)) empty_state)) ''Resources/AppIcon.icns'' = None \<and>
   files (snd (main (plain_world True (Tool_exits 1)) empty_state)) ''Resources/AppIcon.png'' =
     Some (Png icon_image) \<and>
   fst (create_icns (plain_world True Tool_missing)
          (empty_state\<lparr>files := [''Resources/AppIcon.png'' \<mapsto> Raw ''x'']\<rparr>)) = Inr False"
proof -
  have h1: "sips (plain_world True (Tool_exits 1)) = Tool_missing \<or>
      (\<exists>rc. rc \<noteq> 0 \<and> sips (plain_world True (Tool_exits 1)) = Tool_exits rc)"
    by (simp add: plain_world_def)
  have h2: "sips (plain_world True Tool_missing) = Tool_missing \<or>
      (\<exists>rc. rc \<noteq> 0 \<and> sips (plain_world True Tool_missing) = Tool_exits rc)"
    by (simp add: plain_world_def)
  have p: "PIL_AVAILABLE (plain_world True (Tool_exits 1))"
    by (simp add: plain_world_def)
  from tool_failure_is_not_fatal [OF h1, of empty_state] p
  have "fst (main (plain_world True (Tool_exits 1)) empty_state) = 0"
    and "files (snd (main (plain_world True (Tool_exits 1)) empty_state)) ''Resources/AppIcon.icns'' = None"
    and "files (snd (main (plain_world True (Tool_exits 1)) empty_state)) ''Resources/AppIcon.png'' =
     Some (Png icon_image)"
    by (simp_all add: empty_state_def)
  moreover from tool_failure_is_not_fatal [OF h2]
  have "fst (create_icns (plain_world True Tool_missing)
          (empty_state\<lparr>files := [''Resources/AppIcon.png'' \<mapsto> Raw ''x'']\<rparr>)) = Inr False"
    by blast
  ultimately show ?thesis
    by blast
qed

text \<open>
  Claim C9. When \<open>Resources/AppIcon.png\<close> does not exist, \<open>create_icns\<close> checks for it,
  prints the not-found message and returns \<open>False\<close>; its events hold no command, so the
  external tool is never invoked.
\<close>

theorem missing_png_is_guarded:
  assumes "\<not> exists s ''Resources/AppIcon.png''"
  shows "create_icns w s =
       (Inr False,
        s\<lparr>events := events s @
           [Enter ''create_icns'', Path_exists ''Resources/AppIcon.png'',
            Print msg_png_not_found]\<rparr>) \<and>
     commands (drop (length (events s)) (events (snd (create_icns w s)))) = []"
proof -
  note guarded = create_icns_not_found [OF assms, of w]
  have "commands (drop (length (events s)) (events (snd (create_icns w s)))) = []"
    by (simp add: guarded)
  with guarded show ?thesis
    by (rule conjI)
qed

theorem missing_png_is_guarded_witness:
  "\<not> exists empty_state ''Resources/AppIcon.png'' \<and>
   fst (create_icns (plain_world True (Tool_exits 0)) empty_state) = Inr False \<and>
   events (snd (create_icns (plain_world True (Tool_exits 0)) empty_state)) =
     [Enter ''create_icns'', Path_exists ''Resources/AppIcon.png'', Print msg_png_not_found]"
proof -
  have h: "\<not> exists empty_state ''Resources/AppIcon.png''"
    by (simp add: exists_def empty_state_def)
  show ?thesis
    using h missing_png_is_guarded [OF h, of "plain_world True (Tool_exits 0)"]
    by (simp add: empty_state_def)
qed

section \<open>Determinism\<close>




end
